theory Spec2Isabelle
  imports Complex_Main
begin

section \<open>The STRATUS client: flight model, input handlers and scene construction\<close>

text \<open>
  The client is \<^verbatim>\<open>src/client/main.js\<close>. JavaScript numbers are modelled as
  \<^typ>\<open>real\<close>: the arithmetic the code writes is read over the real numbers (no
  rounding, no NaN, no infinities). That reading is exact for the clamps, the speed and
  the inputs; for the position it is exact as long as no product or sum leaves the finite
  range of the doubles. The position is therefore modelled a second time, in double
  arithmetic with overflow to the infinities and NaN, for the claim about the altitude.
  Colours are the integers of the source's hexadecimal literals.
\<close>

subsection \<open>The three.js values the client uses\<close>

record vector3 =
  vx :: real
  vy :: real
  vz :: real

text \<open>An Euler rotation in three.js's default order XYZ: \<open>ex\<close>, \<open>ey\<close>, \<open>ez\<close> are
  \<^verbatim>\<open>rotation.x\<close> (pitch), \<^verbatim>\<open>rotation.y\<close> (yaw) and \<^verbatim>\<open>rotation.z\<close> (roll).\<close>

record euler =
  ex :: real
  ey :: real
  ez :: real

record quaternion =
  qx :: real
  qy :: real
  qz :: real
  qw :: real

text \<open>Utility to clamp a value between min and max (\<^verbatim>\<open>main.js\<close>, line 61):
  \<^verbatim>\<open>Math.max(min, Math.min(max, value))\<close>.\<close>

definition clamp :: "real \<Rightarrow> real \<Rightarrow> real \<Rightarrow> real" where
  "clamp v lo hi = max lo (min hi v)"

text \<open>Modelled from the spec: \<^verbatim>\<open>THREE.MathUtils.degToRad\<close> belongs to the imported
  three.js library, which is not part of the sources; the spec reads its results as
  degrees (30 and 75 degrees, 30 and 60 degrees per second). Three.js computes
  \<^verbatim>\<open>degrees * (Math.PI / 180)\<close>.\<close>

definition degToRad :: "real \<Rightarrow> real" where
  "degToRad degrees = degrees * (pi / 180)"

text \<open>Modelled from the spec: \<^verbatim>\<open>THREE.MathUtils.lerp\<close> belongs to the imported
  three.js library; the spec calls it the linear interpolation between a minimum and a
  maximum with the throttle as the factor. Three.js computes
  \<^verbatim>\<open>(1 - t) * x + t * y\<close>.\<close>

definition lerp :: "real \<Rightarrow> real \<Rightarrow> real \<Rightarrow> real" where
  "lerp x y t = (1 - t) * x + t * y"

text \<open>Modelled from the spec: the orientation of a three.js object as a quaternion
  (\<^verbatim>\<open>Quaternion.setFromEuler\<close>, order XYZ), and the rotation of a vector by it
  (\<^verbatim>\<open>Vector3.applyQuaternion\<close>), are library code; the spec says only that the
  forward direction is the rotation of a fixed reference vector by the current
  orientation. The formulas are those of three.js 0.155. An object's
  \<^verbatim>\<open>quaternion\<close> is kept equal to \<^verbatim>\<open>setFromEuler(rotation)\<close> by the library on
  every write of a rotation component.\<close>

definition setFromEuler :: "euler \<Rightarrow> quaternion" where
  "setFromEuler e =
     (let c1 = cos (ex e / 2); c2 = cos (ey e / 2); c3 = cos (ez e / 2);
          s1 = sin (ex e / 2); s2 = sin (ey e / 2); s3 = sin (ez e / 2)
      in \<lparr> qx = s1 * c2 * c3 + c1 * s2 * s3,
           qy = c1 * s2 * c3 - s1 * c2 * s3,
           qz = c1 * c2 * s3 + s1 * s2 * c3,
           qw = c1 * c2 * c3 - s1 * s2 * s3 \<rparr>)"

definition applyQuaternion :: "vector3 \<Rightarrow> quaternion \<Rightarrow> vector3" where
  "applyQuaternion v q =
     (let ix = qw q * vx v + qy q * vz v - qz q * vy v;
          iy = qw q * vy v + qz q * vx v - qx q * vz v;
          iz = qw q * vz v + qx q * vy v - qy q * vx v;
          iw = - qx q * vx v - qy q * vy v - qz q * vz v
      in \<lparr> vx = ix * qw q + iw * - qx q + iy * - qz q - iz * - qy q,
           vy = iy * qw q + iw * - qy q + iz * - qx q - ix * - qz q,
           vz = iz * qw q + iw * - qz q + ix * - qy q - iy * - qx q \<rparr>)"

text \<open>Modelled from the spec: the vector operations \<^verbatim>\<open>multiplyScalar\<close>,
  \<^verbatim>\<open>length\<close>, \<^verbatim>\<open>normalize\<close> and \<^verbatim>\<open>add\<close> of \<^verbatim>\<open>THREE.Vector3\<close> are library
  code as well; the spec displaces the position by the forward direction times the speed
  times the time step. They are componentwise, as in three.js 0.155.\<close>

definition multiplyScalar :: "vector3 \<Rightarrow> real \<Rightarrow> vector3" where
  "multiplyScalar v s = \<lparr> vx = vx v * s, vy = vy v * s, vz = vz v * s \<rparr>"

definition vlength :: "vector3 \<Rightarrow> real" where
  "vlength v = sqrt (vx v * vx v + vy v * vy v + vz v * vz v)"

text \<open>\<^verbatim>\<open>normalize()\<close> is \<^verbatim>\<open>divideScalar(length() || 1)\<close>, and
  \<^verbatim>\<open>divideScalar(s)\<close> is \<^verbatim>\<open>multiplyScalar(1 / s)\<close>.\<close>

definition normalize :: "vector3 \<Rightarrow> vector3" where
  "normalize v = multiplyScalar v (1 / (if vlength v = 0 then 1 else vlength v))"

definition vadd :: "vector3 \<Rightarrow> vector3 \<Rightarrow> vector3" where
  "vadd v w = \<lparr> vx = vx v + vx w, vy = vy v + vy w, vz = vz v + vz w \<rparr>"

subsection \<open>The airplane\<close>

text \<open>\<^verbatim>\<open>this.group\<close> is a \<^verbatim>\<open>THREE.Group\<close>; of it the client reads and writes the
  position and the rotation, and reads the quaternion. Its child meshes (fuselage, wings,
  tail) are only drawn.\<close>

record object3d =
  position :: vector3
  rotation :: euler

definition quaternion_of :: "object3d \<Rightarrow> quaternion" where
  "quaternion_of g = setFromEuler (rotation g)"

record airplane =
  group :: object3d
  throttle :: real
  pitchInput :: real
  rollInput :: real
  velocity :: real

text \<open>The constructor: a new group has position and rotation zero; \<^verbatim>\<open>buildModel\<close>
  ends with \<^verbatim>\<open>this.group.position.set(0, 5, 0)\<close>.\<close>

definition Airplane :: airplane where
  "Airplane =
     \<lparr> group = \<lparr> position = \<lparr> vx = 0, vy = 5, vz = 0 \<rparr>,
                   rotation = \<lparr> ex = 0, ey = 0, ez = 0 \<rparr> \<rparr>,
       throttle = 0.3, pitchInput = 0, rollInput = 0, velocity = 0 \<rparr>"

text \<open>Lines 124 to 126 of \<^verbatim>\<open>update\<close>: the reference vector \<open>(0, 0, -1)\<close> rotated by
  the group's quaternion, then normalised.\<close>

definition forward :: "object3d \<Rightarrow> vector3" where
  "forward g = normalize (applyQuaternion \<lparr> vx = 0, vy = 0, vz = - 1 \<rparr> (quaternion_of g))"

text \<open>\<^verbatim>\<open>Airplane.update(delta)\<close>, statement by statement, over the reals. Lines 127
  to 131 are given again in double arithmetic, with overflow, as \<open>displace\<close> below.\<close>

definition update :: "airplane \<Rightarrow> real \<Rightarrow> airplane" where
  "update a delta =
     (let pI = clamp (pitchInput a) (- 1) 1;
          rI = clamp (rollInput a) (- 1) 1;
          maxPitchAngle = degToRad 30;
          maxRollAngle = degToRad 75;
          pitchRate = degToRad 30;
          rollRate = degToRad 60;
          rx1 = ex (rotation (group a)) + pI * pitchRate * delta;
          rz1 = ez (rotation (group a)) + rI * rollRate * delta;
          rx2 = clamp rx1 (- maxPitchAngle) maxPitchAngle;
          rz2 = clamp rz1 (- maxRollAngle) maxRollAngle;
          rot = (rotation (group a)) \<lparr> ex := rx2, ez := rz2 \<rparr>;
          minSpeed = 20;
          maxSpeed = 150;
          v = lerp minSpeed maxSpeed (throttle a);
          fwd = forward ((group a) \<lparr> rotation := rot \<rparr>);
          displacement = multiplyScalar fwd (v * delta);
          p1 = vadd (position (group a)) displacement;
          p2 = (if vy p1 < 2 then p1 \<lparr> vy := 2 \<rparr> else p1)
      in a \<lparr> group := \<lparr> position = p2, rotation = rot \<rparr>,
             pitchInput := pI, rollInput := rI, velocity := v \<rparr>)"

subsection \<open>The scene catalogue\<close>

record scene_def =
  id' :: string
  name :: string
  skyColor :: nat
  fogColor :: nat
  groundColor :: nat
  ambient :: nat
  directional :: nat
  groundTexture :: "string option"

text \<open>The three definitions of \<^verbatim>\<open>SCENES\<close>; the accented letters of the display names
  are written as their UTF-8 bytes.\<close>

definition SCENES :: "scene_def list" where
  "SCENES =
     [ \<lparr> id' = ''coast'',
         name = ''C'' @ [CHR 0xC3, CHR 0xB4] @ ''te luminescente'',
         skyColor = 0x92aee0, fogColor = 0x88a8c0, groundColor = 0x47677c,
         ambient = 0x445570, directional = 0xffdcb2,
         groundTexture = Some ''assets/coast.png'' \<rparr>,
       \<lparr> id' = ''alps'',
         name = ''Alpes d'' @ [CHR 0xE2, CHR 0x80, CHR 0x99] @ ''ardoise'',
         skyColor = 0xa9cce3, fogColor = 0xcfd7e5, groundColor = 0x6d7a8a,
         ambient = 0x586273, directional = 0xeef5ff,
         groundTexture = Some ''assets/alps.png'' \<rparr>,
       \<lparr> id' = ''desert'',
         name = ''D'' @ [CHR 0xC3, CHR 0xA9] @ ''sert mirage'',
         skyColor = 0xf1c27d, fogColor = 0xe4b481, groundColor = 0xd5a86d,
         ambient = 0x8d6e4a, directional = 0xfff1c2,
         groundTexture = Some ''assets/desert.png'' \<rparr> ]"

subsection \<open>The world and the store of ground materials\<close>

text \<open>A loaded texture as the load callback leaves it: \<^verbatim>\<open>RepeatWrapping\<close> is the
  three.js constant 1000.\<close>

record texture =
  url :: string
  wrapS :: nat
  wrapT :: nat
  repeat :: "real \<times> real"

record material =
  color :: nat
  metalness :: real
  roughness :: real
  map' :: "texture option"
  needsUpdate :: bool

record fog =
  fcolor :: nat
  near :: real
  far :: real

record ambient_light =
  acolor :: nat
  aintensity :: real

record directional_light =
  dcolor :: nat
  dintensity :: real
  dposition :: vector3
  castShadow :: bool
  mapSize :: "nat \<times> nat"
  shadow_near :: real
  shadow_far :: real

text \<open>The ground mesh refers to its material by address: the material is an object that
  the texture callback of \<^verbatim>\<open>buildScene\<close> keeps a reference to and mutates later.\<close>

record mesh =
  geometry :: "real \<times> real \<times> nat \<times> nat"
  material_ref :: nat
  mesh_rotation_x :: real
  receiveShadow :: bool

record world =
  background :: nat
  fog_of :: fog
  ambientLight :: ambient_light
  dirLight :: directional_light
  ground :: mesh

text \<open>The globals \<^verbatim>\<open>scene\<close> and \<^verbatim>\<open>player\<close>, the store of the ground materials
  allocated so far (an address is an index; a material no world refers to any more stays
  in the store, as it stays alive in the closure of its callback), and the texture loads
  in flight: the URL asked for and the address of the material that the callback of the
  load captured. The scene also holds \<^verbatim>\<open>player.group\<close> as a child; that reference is
  the field \<open>player\<close>.\<close>

record app =
  scene :: world
  player :: airplane
  materials :: "material list"
  loads :: "(string \<times> nat) list"

text \<open>\<^verbatim>\<open>buildScene(def)\<close>, on the store and the loads in flight when it is called. The
  new ground material is allocated at the end of the store. A texture is requested when
  \<^verbatim>\<open>def.groundTexture\<close> is truthy: present and not the empty string. The last two
  statements construct a new \<^verbatim>\<open>Airplane\<close> and assign it to \<^verbatim>\<open>player\<close>.\<close>

definition buildScene :: "scene_def \<Rightarrow> material list \<Rightarrow> (string \<times> nat) list \<Rightarrow> app" where
  "buildScene def mats pending =
     (let groundMat = length mats;
          mats1 = mats @ [\<lparr> color = groundColor def, metalness = 0, roughness = 1,
                           map' = None, needsUpdate = False \<rparr>];
          pending1 = (case groundTexture def of
                        None \<Rightarrow> pending
                      | Some u \<Rightarrow> if u = [] then pending else pending @ [(u, groundMat)])
      in \<lparr> scene = \<lparr> background = skyColor def,
                     fog_of = \<lparr> fcolor = fogColor def, near = 200, far = 15000 \<rparr>,
                     ambientLight = \<lparr> acolor = ambient def, aintensity = 0.6 \<rparr>,
                     dirLight = \<lparr> dcolor = directional def, dintensity = 1,
                                  dposition = \<lparr> vx = - 1, vy = 1.5, vz = 1 \<rparr>,
                                  castShadow = True, mapSize = (2048, 2048),
                                  shadow_near = 10, shadow_far = 5000 \<rparr>,
                     ground = \<lparr> geometry = (50000, 50000, 1, 1), material_ref = groundMat,
                                mesh_rotation_x = - pi / 2, receiveShadow = True \<rparr> \<rparr>,
           player = Airplane,
           materials = mats1,
           loads = pending1 \<rparr>)"

text \<open>The callback of \<^verbatim>\<open>textureLoader.load\<close> for the load whose closure holds the
  material at address \<open>a\<close>: it runs once, when that load is in flight and its image
  arrives. No error callback is passed, so a failed load only ends.\<close>

definition on_texture_load :: "nat \<Rightarrow> app \<Rightarrow> app" where
  "on_texture_load a st =
     (case find (\<lambda>l. snd l = a) (loads st) of
        None \<Rightarrow> st
      | Some l \<Rightarrow>
          st \<lparr> materials := (materials st)
                  [a := (materials st ! a)
                     \<lparr> map' := Some \<lparr> url = fst l, wrapS = 1000, wrapT = 1000,
                                      repeat = (500, 500) \<rparr>,
                       needsUpdate := True \<rparr>],
               loads := remove1 l (loads st) \<rparr>)"

definition on_texture_error :: "nat \<Rightarrow> app \<Rightarrow> app" where
  "on_texture_error a st =
     (case find (\<lambda>l. snd l = a) (loads st) of
        None \<Rightarrow> st
      | Some l \<Rightarrow> st \<lparr> loads := remove1 l (loads st) \<rparr>)"

subsection \<open>The handlers that \<^verbatim>\<open>init\<close> registers\<close>

text \<open>\<^verbatim>\<open>init\<close> builds the first scene of the catalogue before it registers any
  handler.\<close>

definition init :: app where
  "init = buildScene (SCENES ! 0) [] []"

text \<open>The \<^verbatim>\<open>change\<close> handler of the scene selector.\<close>

definition on_change :: "string \<Rightarrow> app \<Rightarrow> app" where
  "on_change selectedId st =
     (case find (\<lambda>s. id' s = selectedId) SCENES of
        Some def \<Rightarrow> buildScene def (materials st) (loads st)
      | None \<Rightarrow> st)"

text \<open>The \<^verbatim>\<open>keydown\<close> and \<^verbatim>\<open>keyup\<close> handlers; the argument is \<^verbatim>\<open>ev.key\<close>.\<close>

definition on_keydown :: "string \<Rightarrow> app \<Rightarrow> app" where
  "on_keydown k st =
     (let p = player st in
      if k = ''ArrowUp'' then st \<lparr> player := p \<lparr> throttle := clamp (throttle p + 0.05) 0 1 \<rparr> \<rparr>
      else if k = ''ArrowDown'' then st \<lparr> player := p \<lparr> throttle := clamp (throttle p - 0.05) 0 1 \<rparr> \<rparr>
      else if k = ''w'' \<or> k = ''W'' then st \<lparr> player := p \<lparr> pitchInput := - 1 \<rparr> \<rparr>
      else if k = ''s'' \<or> k = ''S'' then st \<lparr> player := p \<lparr> pitchInput := 1 \<rparr> \<rparr>
      else if k = ''a'' \<or> k = ''A'' then st \<lparr> player := p \<lparr> rollInput := - 1 \<rparr> \<rparr>
      else if k = ''d'' \<or> k = ''D'' then st \<lparr> player := p \<lparr> rollInput := 1 \<rparr> \<rparr>
      else st)"

definition on_keyup :: "string \<Rightarrow> app \<Rightarrow> app" where
  "on_keyup k st =
     (let p = player st in
      if k = ''w'' \<or> k = ''W'' \<or> k = ''s'' \<or> k = ''S'' then st \<lparr> player := p \<lparr> pitchInput := 0 \<rparr> \<rparr>
      else if k = ''a'' \<or> k = ''A'' \<or> k = ''d'' \<or> k = ''D'' then st \<lparr> player := p \<lparr> rollInput := 0 \<rparr> \<rparr>
      else st)"

text \<open>One frame of \<^verbatim>\<open>animate\<close>, with the \<^verbatim>\<open>delta\<close> that the clock returned. The camera,
  the renderer and the HUD read the player and the scene and write neither.\<close>

definition animate :: "real \<Rightarrow> app \<Rightarrow> app" where
  "animate delta st = st \<lparr> player := update (player st) delta \<rparr>"

text \<open>The events of a session after \<^verbatim>\<open>init\<close>, and the state after a sequence of them.\<close>

datatype event =
    KeyDown string
  | KeyUp string
  | Change string
  | Frame real
  | TextureLoaded nat
  | TextureError nat

fun step :: "app \<Rightarrow> event \<Rightarrow> app" where
  "step st (KeyDown k) = on_keydown k st"
| "step st (KeyUp k) = on_keyup k st"
| "step st (Change i) = on_change i st"
| "step st (Frame delta) = animate delta st"
| "step st (TextureLoaded a) = on_texture_load a st"
| "step st (TextureError a) = on_texture_error a st"

definition run :: "app \<Rightarrow> event list \<Rightarrow> app" where
  "run st evs = foldl step st evs"

subsection \<open>The position in double arithmetic\<close>

text \<open>A JavaScript number that may have left the finite range: a finite value, an
  infinity or NaN. Finite values are kept exact (rounding is not modelled). A product or
  a sum of finite values whose exact value is, in absolute value, at least
  \<open>2 ^ 1024 - 2 ^ 970\<close> becomes the infinity of its sign: from there on rounding to
  nearest gives an infinity instead of the largest double.\<close>

datatype number = Fin real | PosInf | NegInf | NaN

definition overflow_threshold :: real where
  "overflow_threshold = 2 ^ 1024 - 2 ^ 970"

definition round_overflow :: "real \<Rightarrow> number" where
  "round_overflow r =
     (if overflow_threshold \<le> r then PosInf
      else if r \<le> - overflow_threshold then NegInf
      else Fin r)"

text \<open>The operators \<^verbatim>\<open>*\<close>, \<^verbatim>\<open>+\<close> and \<^verbatim>\<open><\<close> of JavaScript on such numbers: zero
  times an infinity is NaN, the sum of the two infinities is NaN, NaN propagates, and
  every comparison with NaN is false.\<close>

fun nmul :: "number \<Rightarrow> number \<Rightarrow> number" where
  "nmul NaN b = NaN"
| "nmul a NaN = NaN"
| "nmul (Fin a) (Fin b) = round_overflow (a * b)"
| "nmul (Fin a) PosInf = (if a = 0 then NaN else if 0 < a then PosInf else NegInf)"
| "nmul (Fin a) NegInf = (if a = 0 then NaN else if 0 < a then NegInf else PosInf)"
| "nmul PosInf (Fin b) = (if b = 0 then NaN else if 0 < b then PosInf else NegInf)"
| "nmul NegInf (Fin b) = (if b = 0 then NaN else if 0 < b then NegInf else PosInf)"
| "nmul PosInf PosInf = PosInf"
| "nmul PosInf NegInf = NegInf"
| "nmul NegInf PosInf = NegInf"
| "nmul NegInf NegInf = PosInf"

fun nadd :: "number \<Rightarrow> number \<Rightarrow> number" where
  "nadd NaN b = NaN"
| "nadd a NaN = NaN"
| "nadd (Fin a) (Fin b) = round_overflow (a + b)"
| "nadd (Fin a) PosInf = PosInf"
| "nadd (Fin a) NegInf = NegInf"
| "nadd PosInf (Fin b) = PosInf"
| "nadd NegInf (Fin b) = NegInf"
| "nadd PosInf PosInf = PosInf"
| "nadd NegInf NegInf = NegInf"
| "nadd PosInf NegInf = NaN"
| "nadd NegInf PosInf = NaN"

fun nless :: "number \<Rightarrow> number \<Rightarrow> bool" where
  "nless NaN b = False"
| "nless a NaN = False"
| "nless (Fin a) (Fin b) = (a < b)"
| "nless (Fin a) PosInf = True"
| "nless (Fin a) NegInf = False"
| "nless PosInf b = False"
| "nless NegInf (Fin b) = True"
| "nless NegInf PosInf = True"
| "nless NegInf NegInf = False"

text \<open>\<open>at_least y b\<close> is \<^verbatim>\<open>y >= b\<close> for a finite bound \<open>b\<close>: false when \<open>y\<close> is
  NaN.\<close>

fun at_least :: "number \<Rightarrow> real \<Rightarrow> bool" where
  "at_least (Fin a) b = (b \<le> a)"
| "at_least PosInf b = True"
| "at_least NegInf b = False"
| "at_least NaN b = False"

record nvector3 =
  nx :: number
  ny :: number
  nz :: number

definition fin_vector :: "vector3 \<Rightarrow> nvector3" where
  "fin_vector p = \<lparr> nx = Fin (vx p), ny = Fin (vy p), nz = Fin (vz p) \<rparr>"

text \<open>Lines 127 to 131 of \<^verbatim>\<open>update\<close> in this arithmetic, from the position \<open>pos\<close>,
  with the forward vector \<open>fwd\<close> of line 126 and the speed \<open>v\<close> of line 123, which are
  finite: \<^verbatim>\<open>velocity * delta\<close>, \<^verbatim>\<open>forward.multiplyScalar\<close> of it (each component
  times the scalar), \<^verbatim>\<open>position.add\<close> (each component plus the displacement's), and
  the floor \<^verbatim>\<open>if (position.y < 2) position.y = 2\<close>.\<close>

definition displace :: "nvector3 \<Rightarrow> vector3 \<Rightarrow> real \<Rightarrow> real \<Rightarrow> nvector3" where
  "displace pos fwd v delta =
     (let s = nmul (Fin v) (Fin delta);
          displacement = \<lparr> nx = nmul (Fin (vx fwd)) s, ny = nmul (Fin (vy fwd)) s,
                           nz = nmul (Fin (vz fwd)) s \<rparr>;
          p1 = \<lparr> nx = nadd (nx pos) (nx displacement), ny = nadd (ny pos) (ny displacement),
                 nz = nadd (nz pos) (nz displacement) \<rparr>
      in if nless (ny p1) (Fin 2) then p1 \<lparr> ny := Fin 2 \<rparr> else p1)"

text \<open>The position of the player in double arithmetic, carried beside the state of the
  session: a frame moves it as \<open>displace\<close> says, with the forward vector and the speed
  that the frame's \<^verbatim>\<open>update\<close> computes; a scene switch that builds a scene puts the new
  airplane at \<open>(0, 5, 0)\<close>; every other event leaves it.\<close>

definition position_step :: "app \<Rightarrow> nvector3 \<Rightarrow> event \<Rightarrow> nvector3" where
  "position_step st pos e =
     (case e of
        Frame delta \<Rightarrow>
          displace pos (forward (group (player (animate delta st))))
            (velocity (player (animate delta st))) delta
      | Change i \<Rightarrow>
          (case find (\<lambda>s. id' s = i) SCENES of
             None \<Rightarrow> pos
           | Some d \<Rightarrow> \<lparr> nx = Fin 0, ny = Fin 5, nz = Fin 0 \<rparr>)
      | _ \<Rightarrow> pos)"

fun double_position :: "app \<Rightarrow> nvector3 \<Rightarrow> event list \<Rightarrow> nvector3" where
  "double_position st pos [] = pos"
| "double_position st pos (e # evs) = double_position (step st e) (position_step st pos e) evs"

text \<open>Every frame of the sequence has a time step that is not negative and a displacement
  \<^verbatim>\<open>velocity * delta\<close> of at most \<open>2 ^ 1023\<close>, half of \<open>2 ^ 1024\<close>: far enough inside
  the finite range that the rounding of the speed and of the product, which the model
  leaves out, cannot reach the overflow.\<close>

fun frames_in_range :: "app \<Rightarrow> event list \<Rightarrow> bool" where
  "frames_in_range st [] = True"
| "frames_in_range st (Frame delta # evs) =
     (0 \<le> delta \<and> lerp 20 150 (throttle (player st)) * delta \<le> 2 ^ 1023
      \<and> frames_in_range (animate delta st) evs)"
| "frames_in_range st (e # evs) = frames_in_range (step st e) evs"

subsection \<open>An invariant of the store\<close>

text \<open>The ground material of the current world, and the material that each load in flight
  will write to, are allocated.\<close>

definition store_ok :: "app \<Rightarrow> bool" where
  "store_ok st \<longleftrightarrow>
     material_ref (ground (scene st)) < length (materials st)
     \<and> (\<forall>l \<in> set (loads st). snd l < length (materials st))"

section \<open>Lemmas\<close>

subsection \<open>Clamping and the constants of \<^verbatim>\<open>update\<close>\<close>

lemma clamp_bounds: "lo \<le> hi \<Longrightarrow> lo \<le> clamp v lo hi \<and> clamp v lo hi \<le> hi"
  by (simp add: clamp_def)

lemma clamp_id: "lo \<le> v \<Longrightarrow> v \<le> hi \<Longrightarrow> clamp v lo hi = v"
  by (simp add: clamp_def)

lemma clamp_at_upper: "lo \<le> hi \<Longrightarrow> hi \<le> v \<Longrightarrow> clamp v lo hi = hi"
  by (simp add: clamp_def)

lemma clamp_at_lower: "lo \<le> hi \<Longrightarrow> v \<le> lo \<Longrightarrow> clamp v lo hi = lo"
  by (simp add: clamp_def)

lemma clamp_nonneg: "lo \<le> hi \<Longrightarrow> 0 \<le> hi \<Longrightarrow> 0 \<le> v \<Longrightarrow> 0 \<le> clamp v lo hi"
  by (simp add: clamp_def)

lemma clamp_nonpos: "lo \<le> hi \<Longrightarrow> lo \<le> 0 \<Longrightarrow> v \<le> 0 \<Longrightarrow> clamp v lo hi \<le> 0"
  by (simp add: clamp_def)

lemma degToRad_nonneg: "0 \<le> d \<Longrightarrow> 0 \<le> degToRad d"
  by (simp add: degToRad_def)

lemma neg_le_degToRad: "0 \<le> d \<Longrightarrow> - degToRad d \<le> degToRad d"
  using degToRad_nonneg [of d] by simp

lemma roll_60: "clamp (degToRad 60) (- degToRad 75) (degToRad 75) = degToRad 60"
proof (rule clamp_id)
  show "- degToRad 75 \<le> degToRad 60"
    using pi_gt_zero unfolding degToRad_def by linarith
  show "degToRad 60 \<le> degToRad 75"
    by (simp add: degToRad_def)
qed

lemma pitch_0: "clamp 0 (- degToRad 30) (degToRad 30) = 0"
  by (rule clamp_id) (simp_all add: degToRad_def)

subsection \<open>What one update writes\<close>

lemma update_velocity: "velocity (update a delta) = lerp 20 150 (throttle a)"
  by (simp add: update_def Let_def)

lemma update_throttle: "throttle (update a delta) = throttle a"
  by (simp add: update_def Let_def)


lemma update_pitch:
  "ex (rotation (group (update a delta))) =
     clamp (ex (rotation (group a)) + clamp (pitchInput a) (- 1) 1 * degToRad 30 * delta)
       (- degToRad 30) (degToRad 30)"
  by (simp add: update_def Let_def)

lemma update_roll:
  "ez (rotation (group (update a delta))) =
     clamp (ez (rotation (group a)) + clamp (rollInput a) (- 1) 1 * degToRad 60 * delta)
       (- degToRad 75) (degToRad 75)"
  by (simp add: update_def Let_def)

lemma update_yaw: "ey (rotation (group (update a delta))) = ey (rotation (group a))"
  by (simp add: update_def Let_def)


lemma updates_yaw: "ey (rotation (group (foldl update a deltas))) = ey (rotation (group a))"
  by (induction deltas arbitrary: a) (simp_all add: update_yaw)



subsection \<open>The forward direction\<close>

text \<open>Without pitch and yaw the quaternion is a rotation about the z axis, which leaves the
  reference vector where it is, whatever the roll.\<close>

lemma forward_no_pitch:
  assumes "ex (rotation g) = 0" "ey (rotation g) = 0"
  shows "forward g = \<lparr> vx = 0, vy = 0, vz = - 1 \<rparr>"
proof -
  let ?c = "cos (ez (rotation g) / 2)" and ?s = "sin (ez (rotation g) / 2)"
  have q: "quaternion_of g = \<lparr> qx = 0, qy = 0, qz = ?s, qw = ?c \<rparr>"
    using assms by (simp add: quaternion_of_def setFromEuler_def Let_def)
  have one: "- (?c * ?c) - ?s * ?s = - 1"
    using sin_cos_squared_add3 [of "ez (rotation g) / 2"] by linarith
  have "applyQuaternion \<lparr> vx = 0, vy = 0, vz = - 1 \<rparr> (quaternion_of g)
          = \<lparr> vx = 0, vy = 0, vz = - (?c * ?c) - ?s * ?s \<rparr>"
    unfolding q by (simp add: applyQuaternion_def Let_def)
  then have "applyQuaternion \<lparr> vx = 0, vy = 0, vz = - 1 \<rparr> (quaternion_of g)
          = \<lparr> vx = 0, vy = 0, vz = - 1 \<rparr>"
    unfolding one .
  then show ?thesis
    by (simp add: forward_def normalize_def vlength_def multiplyScalar_def)
qed

subsection \<open>The catalogue\<close>

lemma find_by_key:
  "distinct (map f xs) \<Longrightarrow> d \<in> set xs \<Longrightarrow> find (\<lambda>s. f s = f d) xs = Some d"
proof (induction xs)
  case Nil
  then show ?case by simp
next
  case (Cons x xs)
  show ?case
  proof (cases "x = d")
    case True
    then show ?thesis by simp
  next
    case False
    with Cons.prems have "d \<in> set xs" and "f x \<noteq> f d" by auto
    with Cons show ?thesis by simp
  qed
qed

lemma distinct_ids: "distinct (map id' SCENES)"
  by (simp add: SCENES_def)

lemma find_scene: "d \<in> set SCENES \<Longrightarrow> find (\<lambda>s. id' s = id' d) SCENES = Some d"
  by (rule find_by_key [OF distinct_ids])

lemma alps_in_SCENES: "SCENES ! 1 \<in> set SCENES"
  by (simp add: SCENES_def)

lemma alps_id: "id' (SCENES ! 1) = ''alps''"
  by (simp add: SCENES_def)

subsection \<open>What the handlers leave alone\<close>

lemma init_player: "player init = Airplane"
  by (simp add: init_def buildScene_def Let_def)

lemma loads_init: "loads init = [(''assets/coast.png'', 0)]"
  by (simp add: init_def buildScene_def SCENES_def Let_def)

lemma buildScene_player: "player (buildScene d mats pending) = Airplane"
  by (simp add: buildScene_def Let_def)

lemma buildScene_ground: "material_ref (ground (scene (buildScene d mats pending))) = length mats"
  by (simp add: buildScene_def Let_def)

lemma buildScene_length: "length (materials (buildScene d mats pending)) = Suc (length mats)"
  by (simp add: buildScene_def Let_def)

lemma buildScene_loads:
  "set (loads (buildScene d mats pending)) \<subseteq> set pending \<union> {l. snd l = length mats}"
  by (auto simp: buildScene_def Let_def split: option.split)

lemma on_keydown_frame:
  "scene (on_keydown k st) = scene st \<and> materials (on_keydown k st) = materials st
   \<and> loads (on_keydown k st) = loads st"
  by (simp add: on_keydown_def Let_def)

lemma on_keyup_frame:
  "scene (on_keyup k st) = scene st \<and> materials (on_keyup k st) = materials st
   \<and> loads (on_keyup k st) = loads st"
  by (simp add: on_keyup_def Let_def)

lemma animate_frame:
  "scene (animate delta st) = scene st \<and> materials (animate delta st) = materials st
   \<and> loads (animate delta st) = loads st"
  by (simp add: animate_def)

lemma player_texture_load: "player (on_texture_load a st) = player st"
  by (simp add: on_texture_load_def split: option.split)

lemma player_texture_error: "player (on_texture_error a st) = player st"
  by (simp add: on_texture_error_def split: option.split)

lemma on_texture_load_scene: "scene (on_texture_load a st) = scene st"
  by (simp add: on_texture_load_def split: option.split)

lemma on_texture_load_length: "length (materials (on_texture_load a st)) = length (materials st)"
  by (simp add: on_texture_load_def split: option.split)

lemma on_texture_load_loads: "set (loads (on_texture_load a st)) \<subseteq> set (loads st)"
proof (cases "find (\<lambda>l. snd l = a) (loads st)")
  case None
  then show ?thesis by (simp add: on_texture_load_def)
next
  case (Some l)
  then show ?thesis by (simp add: on_texture_load_def set_remove1_subset)
qed

lemma on_texture_load_other:
  "b \<noteq> a \<Longrightarrow> materials (on_texture_load a st) ! b = materials st ! b"
  by (simp add: on_texture_load_def split: option.split)

lemma on_texture_error_loads: "set (loads (on_texture_error a st)) \<subseteq> set (loads st)"
proof (cases "find (\<lambda>l. snd l = a) (loads st)")
  case None
  then show ?thesis by (simp add: on_texture_error_def)
next
  case (Some l)
  then show ?thesis by (simp add: on_texture_error_def set_remove1_subset)
qed

lemma on_texture_error_frame:
  "scene (on_texture_error a st) = scene st \<and> materials (on_texture_error a st) = materials st"
  by (simp add: on_texture_error_def split: option.split)

subsection \<open>The throttle under the handlers\<close>

lemma throttle_keydown:
  "throttle (player (on_keydown k st)) =
     (if k = ''ArrowUp'' then clamp (throttle (player st) + 0.05) 0 1
      else if k = ''ArrowDown'' then clamp (throttle (player st) - 0.05) 0 1
      else throttle (player st))"
  by (simp add: on_keydown_def Let_def)

lemma throttle_keyup: "throttle (player (on_keyup k st)) = throttle (player st)"
  by (simp add: on_keyup_def Let_def)

lemma throttle_animate: "throttle (player (animate delta st)) = throttle (player st)"
  by (simp add: animate_def update_throttle)

lemma throttle_on_change:
  "throttle (player (on_change i st)) =
     (case find (\<lambda>s. id' s = i) SCENES of None \<Rightarrow> throttle (player st) | Some d \<Rightarrow> 0.3)"
  by (simp add: on_change_def buildScene_def Let_def Airplane_def split: option.split)

lemma throttle_step:
  assumes "0 \<le> throttle (player st)" "throttle (player st) \<le> 1"
  shows "0 \<le> throttle (player (step st e)) \<and> throttle (player (step st e)) \<le> 1"
proof (cases e)
  case (KeyDown k)
  then show ?thesis using assms clamp_bounds [of 0 1]
    by (simp add: throttle_keydown)
next
  case (KeyUp k)
  then show ?thesis using assms by (simp add: throttle_keyup)
next
  case (Change i)
  then show ?thesis using assms by (simp add: throttle_on_change split: option.split)
next
  case (Frame d)
  then show ?thesis using assms by (simp add: throttle_animate)
next
  case (TextureLoaded a)
  then show ?thesis using assms by (simp add: player_texture_load)
next
  case (TextureError a)
  then show ?thesis using assms by (simp add: player_texture_error)
qed

lemma clamp_after_min:
  "0 \<le> t \<Longrightarrow> 0 \<le> x \<Longrightarrow> clamp (min 1 (t + x) + 0.05) 0 1 = min 1 (t + (x + 0.05))"
  unfolding clamp_def min_def max_def by (simp; linarith)

lemma throttle_presses:
  "0 \<le> throttle (player st) \<Longrightarrow> throttle (player st) \<le> 1 \<Longrightarrow>
   throttle (player ((on_keydown ''ArrowUp'' ^^ n) st)) = min 1 (throttle (player st) + real n * 0.05)"
proof (induction n)
  case 0
  then show ?case by simp
next
  case (Suc n)
  have "throttle (player ((on_keydown ''ArrowUp'' ^^ Suc n) st))
          = clamp (min 1 (throttle (player st) + real n * 0.05) + 0.05) 0 1"
    using Suc by (simp add: throttle_keydown)
  also have "\<dots> = min 1 (throttle (player st) + (real n * 0.05 + 0.05))"
    using Suc.prems by (intro clamp_after_min) simp_all
  also have "real n * 0.05 + 0.05 = real (Suc n) * 0.05"
    by (simp add: algebra_simps)
  finally show ?case .
qed

subsection \<open>Invariants of a session\<close>

lemma yaw_step:
  assumes "ey (rotation (group (player st))) = 0"
  shows "ey (rotation (group (player (step st e)))) = 0"
proof (cases e)
  case (KeyDown k)
  then show ?thesis using assms by (simp add: on_keydown_def Let_def)
next
  case (KeyUp k)
  then show ?thesis using assms by (simp add: on_keyup_def Let_def)
next
  case (Change i)
  then show ?thesis using assms
    by (simp add: on_change_def buildScene_def Let_def Airplane_def split: option.split)
next
  case (Frame d)
  then show ?thesis using assms by (simp add: animate_def update_yaw)
next
  case (TextureLoaded a)
  then show ?thesis using assms by (simp add: player_texture_load)
next
  case (TextureError a)
  then show ?thesis using assms by (simp add: player_texture_error)
qed

lemma yaw_run:
  "ey (rotation (group (player st))) = 0 \<Longrightarrow> ey (rotation (group (player (run st evs)))) = 0"
  unfolding run_def by (induction evs arbitrary: st) (simp_all add: yaw_step)

lemma buildScene_ok:
  assumes "\<forall>l \<in> set pending. snd l < length mats"
  shows "store_ok (buildScene d mats pending)"
  unfolding store_ok_def buildScene_ground buildScene_length
  using assms buildScene_loads [of d mats pending] by fastforce

lemma init_ok: "store_ok init"
  unfolding init_def by (rule buildScene_ok) simp

lemma step_ok: "store_ok st \<Longrightarrow> store_ok (step st e)"
proof (cases e)
  case (KeyDown k)
  assume "store_ok st"
  with KeyDown show ?thesis by (simp add: store_ok_def on_keydown_frame)
next
  case (KeyUp k)
  assume "store_ok st"
  with KeyUp show ?thesis by (simp add: store_ok_def on_keyup_frame)
next
  case (Change i)
  assume ok: "store_ok st"
  show ?thesis
  proof (cases "find (\<lambda>s. id' s = i) SCENES")
    case None
    with Change ok show ?thesis by (simp add: on_change_def)
  next
    case (Some d)
    from ok have "\<forall>l \<in> set (loads st). snd l < length (materials st)"
      unfolding store_ok_def by blast
    then have "store_ok (buildScene d (materials st) (loads st))"
      by (rule buildScene_ok)
    with Change Some show ?thesis by (simp add: on_change_def)
  qed
next
  case (Frame d)
  assume "store_ok st"
  with Frame show ?thesis by (simp add: store_ok_def animate_frame)
next
  case (TextureLoaded a)
  assume "store_ok st"
  with TextureLoaded on_texture_load_loads [of a st] show ?thesis
    unfolding store_ok_def
    by (auto simp: on_texture_load_scene on_texture_load_length)
next
  case (TextureError a)
  assume "store_ok st"
  with TextureError on_texture_error_loads [of a st] show ?thesis
    unfolding store_ok_def
    by (auto simp: on_texture_error_frame)
qed

lemma run_ok: "store_ok st \<Longrightarrow> store_ok (run st evs)"
  unfolding run_def by (induction evs arbitrary: st) (simp_all add: step_ok)

text \<open>The address of the current ground material never decreases: a scene switch
  allocates past every address in use.\<close>

lemma step_ground_mono:
  assumes "store_ok st"
  shows "material_ref (ground (scene st)) \<le> material_ref (ground (scene (step st e)))"
proof (cases e)
  case (Change i)
  from assms have "material_ref (ground (scene st)) \<le> length (materials st)"
    by (simp add: store_ok_def)
  with Change show ?thesis
    by (simp add: on_change_def buildScene_ground split: option.split)
qed (simp_all add: on_keydown_frame on_keyup_frame animate_frame on_texture_load_scene
       on_texture_error_frame)

lemma run_ground_mono:
  "store_ok st \<Longrightarrow> material_ref (ground (scene st)) \<le> material_ref (ground (scene (run st evs)))"
  unfolding run_def
proof (induction evs arbitrary: st)
  case Nil
  then show ?case by simp
next
  case (Cons e evs)
  have "material_ref (ground (scene st)) \<le> material_ref (ground (scene (step st e)))"
    using Cons.prems by (rule step_ground_mono)
  also have "\<dots> \<le> material_ref (ground (scene (foldl step (step st e) evs)))"
    using Cons.prems by (intro Cons.IH step_ok)
  finally show ?case by simp
qed

subsection \<open>A short flight\<close>

text \<open>After \<^verbatim>\<open>init\<close>: one press of the throttle-up key, the roll-right key held, and
  one frame of one second.\<close>

lemma short_flight:
  "player (run init [KeyDown ''ArrowUp'', KeyDown ''d'', Frame 1])
     = \<lparr> group = \<lparr> position = \<lparr> vx = 0, vy = 5, vz = - 65.5 \<rparr>,
                   rotation = \<lparr> ex = 0, ey = 0, ez = degToRad 60 \<rparr> \<rparr>,
         throttle = 0.35, pitchInput = 0, rollInput = 1, velocity = 65.5 \<rparr>"
proof -
  let ?a = "Airplane \<lparr> throttle := 0.35, rollInput := 1 \<rparr>"
  have p: "player (run init [KeyDown ''ArrowUp'', KeyDown ''d'']) = ?a"
    by (simp add: run_def on_keydown_def Let_def init_player Airplane_def clamp_def)
  have i: "clamp 0 (- 1) 1 = 0" "clamp 1 (- 1) 1 = 1"
    by (simp_all add: clamp_def)
  have u: "update ?a 1 = \<lparr> group = \<lparr> position = \<lparr> vx = 0, vy = 5, vz = - 65.5 \<rparr>,
                   rotation = \<lparr> ex = 0, ey = 0, ez = degToRad 60 \<rparr> \<rparr>,
         throttle = 0.35, pitchInput = 0, rollInput = 1, velocity = 65.5 \<rparr>"
    by (simp add: update_def Let_def Airplane_def i roll_60 pitch_0 forward_no_pitch
        lerp_def multiplyScalar_def vadd_def)
  have "player (run init [KeyDown ''ArrowUp'', KeyDown ''d'', Frame 1])
          = update (player (run init [KeyDown ''ArrowUp'', KeyDown ''d''])) 1"
    by (simp add: run_def animate_def)
  then show ?thesis
    by (simp only: p u)
qed

lemma find_alps: "find (\<lambda>s. id' s = ''alps'') SCENES = Some (SCENES ! 1)"
  using find_scene [OF alps_in_SCENES] unfolding alps_id .

lemma on_change_alps_player: "player (on_change ''alps'' st) = Airplane"
  by (simp add: on_change_def find_alps buildScene_player)

section \<open>The claims\<close>

subsection \<open>C1: a scene switch and the airplane\<close>

text \<open>
  C1 says that a scene switch leaves the position, the orientation and the throttle of
  the airplane unchanged and replaces only the world. The code does otherwise:
  \<^verbatim>\<open>buildScene\<close> ends with \<^verbatim>\<open>player = new Airplane()\<close>, and its own comment says
  that it constructs the player airplane. The counterexample is the short flight above
  (throttle 0.35, roll 60 degrees, position \<open>(0, 5, -65.5)\<close>) followed by the
  selection of the scene \<^verbatim>\<open>alps\<close>: afterwards the airplane is the one the constructor
  makes, with throttle 0.3, no roll, at \<open>(0, 5, 0)\<close>.
\<close>

theorem scene_switch_keeps_airplane_counterexample:
  "player (run init [KeyDown ''ArrowUp'', KeyDown ''d'', Frame 1])
     = \<lparr> group = \<lparr> position = \<lparr> vx = 0, vy = 5, vz = - 65.5 \<rparr>,
                   rotation = \<lparr> ex = 0, ey = 0, ez = degToRad 60 \<rparr> \<rparr>,
         throttle = 0.35, pitchInput = 0, rollInput = 1, velocity = 65.5 \<rparr>
   \<and> player (on_change ''alps'' (run init [KeyDown ''ArrowUp'', KeyDown ''d'', Frame 1]))
     = \<lparr> group = \<lparr> position = \<lparr> vx = 0, vy = 5, vz = 0 \<rparr>,
                   rotation = \<lparr> ex = 0, ey = 0, ez = 0 \<rparr> \<rparr>,
         throttle = 0.3, pitchInput = 0, rollInput = 0, velocity = 0 \<rparr>
   \<and> throttle (player (on_change ''alps'' (run init [KeyDown ''ArrowUp'', KeyDown ''d'', Frame 1])))
     \<noteq> throttle (player (run init [KeyDown ''ArrowUp'', KeyDown ''d'', Frame 1]))
   \<and> position (group (player (on_change ''alps'' (run init [KeyDown ''ArrowUp'', KeyDown ''d'', Frame 1]))))
     \<noteq> position (group (player (run init [KeyDown ''ArrowUp'', KeyDown ''d'', Frame 1])))"
  unfolding short_flight on_change_alps_player
  by (simp add: Airplane_def)

text \<open>
  C1, amended: for every state of the session and every definition of the catalogue,
  selecting that scene replaces the world by the one built from the definition (its sky
  colour as background, a newly allocated ground material of its ground colour) and
  replaces the airplane by a newly constructed one: position \<open>(0, 5, 0)\<close>, rotation
  zero, throttle 0.3, inputs zero, speed zero, whatever the airplane was before.
\<close>

theorem scene_switch_rebuilds_airplane:
  assumes "d \<in> set SCENES"
  shows "player (on_change (id' d) st)
           = \<lparr> group = \<lparr> position = \<lparr> vx = 0, vy = 5, vz = 0 \<rparr>,
                         rotation = \<lparr> ex = 0, ey = 0, ez = 0 \<rparr> \<rparr>,
               throttle = 0.3, pitchInput = 0, rollInput = 0, velocity = 0 \<rparr>
       \<and> scene (on_change (id' d) st) = scene (buildScene d (materials st) (loads st))
       \<and> background (scene (on_change (id' d) st)) = skyColor d
       \<and> material_ref (ground (scene (on_change (id' d) st))) = length (materials st)
       \<and> color (materials (on_change (id' d) st) ! length (materials st)) = groundColor d"
  using find_scene [OF assms]
  by (simp add: on_change_def buildScene_def Let_def Airplane_def)

theorem scene_switch_rebuilds_airplane_witness:
  "SCENES ! 1 \<in> set SCENES
   \<and> throttle (player (run init [KeyDown ''ArrowUp'', KeyDown ''d'', Frame 1])) = 0.35
   \<and> player (on_change ''alps'' (run init [KeyDown ''ArrowUp'', KeyDown ''d'', Frame 1]))
        = \<lparr> group = \<lparr> position = \<lparr> vx = 0, vy = 5, vz = 0 \<rparr>,
                      rotation = \<lparr> ex = 0, ey = 0, ez = 0 \<rparr> \<rparr>,
            throttle = 0.3, pitchInput = 0, rollInput = 0, velocity = 0 \<rparr>"
proof -
  have t: "throttle (player (run init [KeyDown ''ArrowUp'', KeyDown ''d'', Frame 1])) = 0.35"
    unfolding short_flight by simp
  from scene_switch_rebuilds_airplane [OF alps_in_SCENES,
      of "run init [KeyDown ''ArrowUp'', KeyDown ''d'', Frame 1]"]
  have "player (on_change (id' (SCENES ! 1)) (run init [KeyDown ''ArrowUp'', KeyDown ''d'', Frame 1]))
        = \<lparr> group = \<lparr> position = \<lparr> vx = 0, vy = 5, vz = 0 \<rparr>,
                      rotation = \<lparr> ex = 0, ey = 0, ez = 0 \<rparr> \<rparr>,
            throttle = 0.3, pitchInput = 0, rollInput = 0, velocity = 0 \<rparr>"
    by (rule conjunct1)
  then show ?thesis
    unfolding alps_id using alps_in_SCENES t by simp
qed

subsection \<open>C2: the speed is a function of the throttle\<close>

text \<open>
  C2: for every throttle and every time step, after \<^verbatim>\<open>update\<close> the speed is
  \<open>lerp 20 150 throttle\<close>, which is \<open>20 + throttle * (150 - 20)\<close>; the update
  leaves the throttle as it is, and the speed depends on nothing else: the same airplane
  with any other position and orientation \<open>g\<close>, any other inputs \<open>p\<close> and \<open>r\<close>,
  any other previous speed \<open>v0\<close> and any other time step gets the same speed. The
  bounds 0 and 1 on the throttle are not needed.
\<close>

theorem speed_is_lerp_of_throttle:
  "velocity (update a delta) = lerp 20 150 (throttle a)
   \<and> lerp 20 150 (throttle a) = 20 + throttle a * (150 - 20)
   \<and> throttle (update a delta) = throttle a
   \<and> velocity (update (a \<lparr> group := g, pitchInput := p, rollInput := r, velocity := v0 \<rparr>) delta')
       = velocity (update a delta)"
  by (simp add: update_velocity update_throttle lerp_def algebra_simps)

subsection \<open>C3: pitch and roll stay within their limits\<close>

text \<open>
  C3: for every time step \<open>delta \<ge> 0\<close> and every airplane, whatever its inputs and its
  rotation before, after \<^verbatim>\<open>update\<close> the pitch is within 30 degrees and the roll within
  75 degrees of zero. The limit is a hard stop: a pitch or roll that is at a limit, with
  the input of that axis pushing towards the limit (or zero), is at the same limit
  afterwards.
\<close>

theorem update_clamps_pitch_and_roll:
  assumes "0 \<le> delta"
  shows "- degToRad 30 \<le> ex (rotation (group (update a delta)))
       \<and> ex (rotation (group (update a delta))) \<le> degToRad 30
       \<and> - degToRad 75 \<le> ez (rotation (group (update a delta)))
       \<and> ez (rotation (group (update a delta))) \<le> degToRad 75
       \<and> (ex (rotation (group a)) = degToRad 30 \<and> 0 \<le> pitchInput a
            \<longrightarrow> ex (rotation (group (update a delta))) = degToRad 30)
       \<and> (ex (rotation (group a)) = - degToRad 30 \<and> pitchInput a \<le> 0
            \<longrightarrow> ex (rotation (group (update a delta))) = - degToRad 30)
       \<and> (ez (rotation (group a)) = degToRad 75 \<and> 0 \<le> rollInput a
            \<longrightarrow> ez (rotation (group (update a delta))) = degToRad 75)
       \<and> (ez (rotation (group a)) = - degToRad 75 \<and> rollInput a \<le> 0
            \<longrightarrow> ez (rotation (group (update a delta))) = - degToRad 75)"
proof -
  have b30: "- degToRad 30 \<le> degToRad 30" and b75: "- degToRad 75 \<le> degToRad 75"
    by (simp_all add: neg_le_degToRad degToRad_nonneg)
  have r30: "0 \<le> degToRad 30" and r60: "0 \<le> degToRad 60"
    by (simp_all add: degToRad_nonneg)
  have up: "0 \<le> i \<Longrightarrow> 0 \<le> r \<Longrightarrow> 0 \<le> clamp i (- 1) 1 * r * delta" for i r
    using assms by (simp add: clamp_nonneg)
  have down: "i \<le> 0 \<Longrightarrow> 0 \<le> r \<Longrightarrow> clamp i (- 1) 1 * r * delta \<le> 0" for i r
    using assms clamp_nonpos [of "- 1" 1 i]
    by (simp add: mult_nonpos_nonneg mult_nonneg_nonpos mult_nonneg_nonneg)
  have p1: "- degToRad 30 \<le> ex (rotation (group (update a delta)))
       \<and> ex (rotation (group (update a delta))) \<le> degToRad 30"
    unfolding update_pitch using b30 by (rule clamp_bounds)
  have p2: "- degToRad 75 \<le> ez (rotation (group (update a delta)))
       \<and> ez (rotation (group (update a delta))) \<le> degToRad 75"
    unfolding update_roll using b75 by (rule clamp_bounds)
  have p3: "ex (rotation (group a)) = degToRad 30 \<and> 0 \<le> pitchInput a
            \<longrightarrow> ex (rotation (group (update a delta))) = degToRad 30"
    unfolding update_pitch using up [of "pitchInput a" "degToRad 30"] r30 b30
    by (auto intro!: clamp_at_upper)
  have p4: "ex (rotation (group a)) = - degToRad 30 \<and> pitchInput a \<le> 0
            \<longrightarrow> ex (rotation (group (update a delta))) = - degToRad 30"
    unfolding update_pitch using down [of "pitchInput a" "degToRad 30"] r30 b30
    by (auto intro!: clamp_at_lower)
  have p5: "ez (rotation (group a)) = degToRad 75 \<and> 0 \<le> rollInput a
            \<longrightarrow> ez (rotation (group (update a delta))) = degToRad 75"
    unfolding update_roll using up [of "rollInput a" "degToRad 60"] r60 b75
    by (auto intro!: clamp_at_upper)
  have p6: "ez (rotation (group a)) = - degToRad 75 \<and> rollInput a \<le> 0
            \<longrightarrow> ez (rotation (group (update a delta))) = - degToRad 75"
    unfolding update_roll using down [of "rollInput a" "degToRad 60"] r60 b75
    by (auto intro!: clamp_at_lower)
  from p1 p2 p3 p4 p5 p6 show ?thesis by blast
qed

text \<open>The witness: an airplane at the upper pitch limit with the pitch-up input held, for
  one second.\<close>

theorem update_clamps_pitch_and_roll_witness:
  "(0::real) \<le> 1
   \<and> ex (rotation (group (update
        \<lparr> group = \<lparr> position = \<lparr> vx = 0, vy = 5, vz = 0 \<rparr>,
                      rotation = \<lparr> ex = degToRad 30, ey = 0, ez = 0 \<rparr> \<rparr>,
            throttle = 0.3, pitchInput = 1, rollInput = 0, velocity = 0 \<rparr> 1)))
       = degToRad 30
   \<and> ez (rotation (group (update
        \<lparr> group = \<lparr> position = \<lparr> vx = 0, vy = 5, vz = 0 \<rparr>,
                      rotation = \<lparr> ex = degToRad 30, ey = 0, ez = 0 \<rparr> \<rparr>,
            throttle = 0.3, pitchInput = 1, rollInput = 0, velocity = 0 \<rparr> 1)))
       \<le> degToRad 75"
  using update_clamps_pitch_and_roll [of 1
      "\<lparr> group = \<lparr> position = \<lparr> vx = 0, vy = 5, vz = 0 \<rparr>,
                    rotation = \<lparr> ex = degToRad 30, ey = 0, ez = 0 \<rparr> \<rparr>,
          throttle = 0.3, pitchInput = 1, rollInput = 0, velocity = 0 \<rparr>"]
  by simp

subsection \<open>C4: the ground floor\<close>

text \<open>The floor in double arithmetic, and its agreement with the reading over the reals
  while every product and sum stays within \<open>2 ^ 1023\<close>.\<close>

lemma half_below_threshold: "(2::real) ^ 1023 < overflow_threshold"
proof -
  have "(2::real) ^ 970 < 2 ^ 1023"
    by (rule power_strict_increasing) simp_all
  moreover have "(2::real) ^ 1024 = 2 * 2 ^ 1023"
    by simp
  ultimately show ?thesis
    unfolding overflow_threshold_def by linarith
qed

lemma round_overflow_Fin: "\<bar>r\<bar> \<le> 2 ^ 1023 \<Longrightarrow> round_overflow r = Fin r"
  using half_below_threshold unfolding round_overflow_def by (simp add: abs_le_iff)

lemma displace_agrees:
  assumes "\<bar>v * delta\<bar> \<le> 2 ^ 1023"
    and "\<bar>vx fwd * (v * delta)\<bar> \<le> 2 ^ 1023" "\<bar>vx p + vx fwd * (v * delta)\<bar> \<le> 2 ^ 1023"
    and "\<bar>vy fwd * (v * delta)\<bar> \<le> 2 ^ 1023" "\<bar>vy p + vy fwd * (v * delta)\<bar> \<le> 2 ^ 1023"
    and "\<bar>vz fwd * (v * delta)\<bar> \<le> 2 ^ 1023" "\<bar>vz p + vz fwd * (v * delta)\<bar> \<le> 2 ^ 1023"
  shows "displace (fin_vector p) fwd v delta =
           fin_vector (let p1 = vadd p (multiplyScalar fwd (v * delta))
                       in if vy p1 < 2 then p1 \<lparr> vy := 2 \<rparr> else p1)"
proof -
  note r = assms [THEN round_overflow_Fin]
  show ?thesis
    by (simp add: displace_def fin_vector_def Let_def vadd_def multiplyScalar_def r)
qed

lemma normalize_vy: "\<bar>vy (normalize w)\<bar> \<le> 1"
proof (cases "vlength w = 0")
  case True
  then have "vx w * vx w + vy w * vy w + vz w * vz w = 0"
    by (simp add: vlength_def)
  then have "vy w = 0"
    by (smt (verit) mult_eq_0_iff zero_le_square add_nonneg_eq_0_iff add_nonneg_nonneg)
  then show ?thesis
    by (simp add: normalize_def multiplyScalar_def)
next
  case False
  have "\<bar>vy w\<bar> = sqrt (vy w * vy w)"
    by simp
  also have "\<dots> \<le> vlength w"
    unfolding vlength_def by (rule real_sqrt_le_mono) simp
  finally have le: "\<bar>vy w\<bar> \<le> vlength w" .
  moreover from le False have pos: "0 < vlength w"
    by (smt (verit) abs_ge_zero)
  ultimately have "\<bar>vy w\<bar> / vlength w \<le> 1"
    by (simp add: divide_le_eq)
  with False pos show ?thesis
    by (simp add: normalize_def multiplyScalar_def abs_mult)
qed

lemma forward_vy: "\<bar>vy (forward g)\<bar> \<le> 1"
  unfolding forward_def by (rule normalize_vy)

lemma displace_floor:
  assumes y: "at_least (ny pos) 2" and f: "\<bar>vy fwd\<bar> \<le> 1" and s: "\<bar>v * delta\<bar> \<le> 2 ^ 1023"
  shows "at_least (ny (displace pos fwd v delta)) 2"
proof -
  have m: "round_overflow (v * delta) = Fin (v * delta)"
    using s by (rule round_overflow_Fin)
  have "\<bar>vy fwd * (v * delta)\<bar> \<le> 1 * 2 ^ 1023"
    unfolding abs_mult using f s by (intro mult_mono) simp_all
  then have d: "round_overflow (vy fwd * (v * delta)) = Fin (vy fwd * (v * delta))"
    by (simp add: round_overflow_Fin)
  let ?t = "vy fwd * (v * delta)"
  have "at_least (if nless (nadd (ny pos) (Fin ?t)) (Fin 2) then Fin 2 else nadd (ny pos) (Fin ?t)) 2"
  proof (cases "ny pos")
    case (Fin r)
    then show ?thesis by (simp add: round_overflow_def)
  next
    case PosInf
    then show ?thesis by simp
  next
    case NegInf
    with y show ?thesis by simp
  next
    case NaN
    with y show ?thesis by simp
  qed
  moreover have "ny (displace pos fwd v delta)
      = (if nless (nadd (ny pos) (Fin ?t)) (Fin 2) then Fin 2 else nadd (ny pos) (Fin ?t))"
    by (simp add: displace_def Let_def m d)
  ultimately show ?thesis
    by (simp only:)
qed

lemma frames_in_range_take: "frames_in_range st evs \<Longrightarrow> frames_in_range st (take n evs)"
proof (induction st evs arbitrary: n rule: frames_in_range.induct)
  case (1 st)
  then show ?case by simp
next
  case (2 st delta evs)
  then show ?case by (cases n) simp_all
qed (case_tac n; simp)+

lemma position_step_floor:
  assumes "0 \<le> throttle (player st)" "throttle (player st) \<le> 1"
    and "at_least (ny pos) 2" and "frames_in_range st (e # evs)"
  shows "at_least (ny (position_step st pos e)) 2"
proof (cases e)
  case (Frame delta)
  let ?v = "lerp 20 150 (throttle (player st))"
  from assms(4) Frame have d: "0 \<le> delta" and le: "?v * delta \<le> 2 ^ 1023"
    by simp_all
  have "0 \<le> ?v"
    using assms(1,2) by (simp add: lerp_def)
  with d have "0 \<le> ?v * delta" by simp
  with le have "\<bar>?v * delta\<bar> \<le> 2 ^ 1023" by simp
  with assms(3) forward_vy show ?thesis
    unfolding position_step_def Frame
    by (simp add: animate_def update_velocity displace_floor)
next
  case (Change i)
  with assms(3) show ?thesis
    by (simp add: position_step_def split: option.split)
next
  case (KeyDown k)
  with assms(3) show ?thesis by (simp add: position_step_def)
next
  case (KeyUp k)
  with assms(3) show ?thesis by (simp add: position_step_def)
next
  case (TextureLoaded a)
  with assms(3) show ?thesis by (simp add: position_step_def)
next
  case (TextureError a)
  with assms(3) show ?thesis by (simp add: position_step_def)
qed

lemma double_position_floor:
  assumes "0 \<le> throttle (player st)" "throttle (player st) \<le> 1"
    and "at_least (ny pos) 2" and "frames_in_range st evs"
  shows "at_least (ny (double_position st pos evs)) 2"
  using assms
proof (induction evs arbitrary: st pos)
  case Nil
  then show ?case by simp
next
  case (Cons e evs)
  have t: "0 \<le> throttle (player (step st e)) \<and> throttle (player (step st e)) \<le> 1"
    using Cons.prems(1,2) by (rule throttle_step)
  have p: "at_least (ny (position_step st pos e)) 2"
    using Cons.prems by (rule position_step_floor)
  have r: "frames_in_range (step st e) evs"
    using Cons.prems(4) by (cases e) simp_all
  from t p r show ?case
    by (simp add: Cons.IH)
qed

lemma init_frame_forward:
  "forward (group (player (animate delta init))) = \<lparr> vx = 0, vy = 0, vz = - 1 \<rparr>"
proof (rule forward_no_pitch)
  have i: "clamp 0 (- 1) 1 = 0"
    by (simp add: clamp_def)
  show "ex (rotation (group (player (animate delta init)))) = 0"
    by (simp add: animate_def init_player update_pitch Airplane_def i pitch_0)
  show "ey (rotation (group (player (animate delta init)))) = 0"
    by (simp add: animate_def init_player update_yaw Airplane_def)
qed

lemma init_frame_velocity: "velocity (player (animate delta init)) = 59"
  by (simp add: animate_def update_velocity init_player Airplane_def lerp_def)

text \<open>
  C4 says that from an altitude of at least 2 the altitude is at least 2 after every
  \<^verbatim>\<open>update\<close> with a time step \<open>delta \<ge> 0\<close>. In double arithmetic it is not so for
  every such time step. The counterexample is the first frame after \<^verbatim>\<open>init\<close>
  (altitude 5, speed 59, forward \<open>(0, 0, -1)\<close>) with \<open>delta = 10 ^ 308\<close>:
  \<^verbatim>\<open>velocity * delta\<close> overflows to \<^verbatim>\<open>Infinity\<close>, the y component of the
  displacement is \<^verbatim>\<open>0 * Infinity\<close>, which is NaN, the altitude becomes \<^verbatim>\<open>5 + NaN\<close>,
  which is NaN, and \<^verbatim>\<open>NaN < 2\<close> is false, so the floor of line 129 leaves it. The
  position afterwards is \<open>(NaN, NaN, -Infinity)\<close>, and NaN is not at least 2.
\<close>

theorem altitude_floor_overflow_counterexample:
  "at_least (Fin 5) 2 \<and> (0::real) \<le> 10 ^ 308
   \<and> double_position init \<lparr> nx = Fin 0, ny = Fin 5, nz = Fin 0 \<rparr> [Frame (10 ^ 308)]
       = \<lparr> nx = NaN, ny = NaN, nz = NegInf \<rparr>
   \<and> \<not> at_least (ny (double_position init \<lparr> nx = Fin 0, ny = Fin 5, nz = Fin 0 \<rparr>
          [Frame (10 ^ 308)])) 2"
proof -
  have o: "round_overflow (59 * 10 ^ 308) = PosInf"
    by (simp add: round_overflow_def overflow_threshold_def)
  have "displace \<lparr> nx = Fin 0, ny = Fin 5, nz = Fin 0 \<rparr> \<lparr> vx = 0, vy = 0, vz = - 1 \<rparr> 59 (10 ^ 308)
          = \<lparr> nx = NaN, ny = NaN, nz = NegInf \<rparr>"
    unfolding displace_def nmul.simps o by (simp add: Let_def)
  then have "double_position init \<lparr> nx = Fin 0, ny = Fin 5, nz = Fin 0 \<rparr> [Frame (10 ^ 308)]
          = \<lparr> nx = NaN, ny = NaN, nz = NegInf \<rparr>"
    unfolding double_position.simps position_step_def event.case
      init_frame_forward init_frame_velocity .
  then show ?thesis by simp
qed

text \<open>
  C4, amended: take any state of the session whose throttle is between 0 and 1, any
  position of the player whose altitude is at least 2, and any finite sequence of events
  (frames, each one call of \<^verbatim>\<open>update\<close>, with key presses and releases, scene switches
  and texture callbacks between them: any inputs, any throttle) in which every frame has
  a time step \<open>delta \<ge> 0\<close> whose displacement \<^verbatim>\<open>velocity * delta\<close> is at most
  \<open>2 ^ 1023\<close>, so that it does not overflow. Then the altitude, in double arithmetic,
  is at least 2 after every prefix of the sequence.
\<close>

theorem altitude_floor_without_overflow:
  assumes "0 \<le> throttle (player st)" "throttle (player st) \<le> 1"
    and "at_least (ny pos) 2" and "frames_in_range st evs"
  shows "at_least (ny (double_position st pos (take n evs))) 2"
  using assms(1-3) frames_in_range_take [OF assms(4)] by (rule double_position_floor)

theorem altitude_floor_without_overflow_witness:
  "0 \<le> throttle (player init) \<and> throttle (player init) \<le> 1
   \<and> at_least (ny \<lparr> nx = Fin 0, ny = Fin 5, nz = Fin 0 \<rparr>) 2
   \<and> frames_in_range init [KeyDown ''w'', Frame 1, Frame 1, KeyDown ''ArrowUp'', Frame 10]
   \<and> at_least (ny (double_position init \<lparr> nx = Fin 0, ny = Fin 5, nz = Fin 0 \<rparr>
        [KeyDown ''w'', Frame 1, Frame 1, KeyDown ''ArrowUp'', Frame 10])) 2"
proof -
  have t: "0 \<le> throttle (player init)" "throttle (player init) \<le> 1"
    by (simp_all add: init_player Airplane_def)
  have p: "at_least (ny \<lparr> nx = Fin 0, ny = Fin 5, nz = Fin 0 \<rparr>) 2"
    by simp
  have big: "(59::real) \<le> 2 ^ 1023" "(655::real) \<le> 2 ^ 1023"
    by simp_all
  have f: "frames_in_range init [KeyDown ''w'', Frame 1, Frame 1, KeyDown ''ArrowUp'', Frame 10]"
    using big
    by (simp add: throttle_keydown throttle_animate init_player Airplane_def lerp_def clamp_def)
  from altitude_floor_without_overflow [OF t p f, of 5] t p f show ?thesis by simp
qed

subsection \<open>C5: a time step of zero\<close>




subsection \<open>C6: a key release zeroes its axis\<close>

text \<open>
  C6: in every state, the release of a pitch key (\<^verbatim>\<open>w\<close>, \<^verbatim>\<open>W\<close>, \<^verbatim>\<open>s\<close>,
  \<^verbatim>\<open>S\<close>) sets \<^verbatim>\<open>pitchInput\<close> to 0 and the release of a roll key (\<^verbatim>\<open>a\<close>,
  \<^verbatim>\<open>A\<close>, \<^verbatim>\<open>d\<close>, \<^verbatim>\<open>D\<close>) sets \<^verbatim>\<open>rollInput\<close> to 0, whatever the inputs were
  and whichever keys are still held. In particular, after pressing the left-roll key
  \<^verbatim>\<open>a\<close> and then the right-roll key \<^verbatim>\<open>d\<close> the roll input is that of the right-roll
  key, 1, and releasing \<^verbatim>\<open>a\<close> then makes it 0.
\<close>

theorem key_release_zeroes_axis:
  "pitchInput (player (on_keyup ''w'' st)) = 0
   \<and> pitchInput (player (on_keyup ''W'' st)) = 0
   \<and> pitchInput (player (on_keyup ''s'' st)) = 0
   \<and> pitchInput (player (on_keyup ''S'' st)) = 0
   \<and> rollInput (player (on_keyup ''a'' st)) = 0
   \<and> rollInput (player (on_keyup ''A'' st)) = 0
   \<and> rollInput (player (on_keyup ''d'' st)) = 0
   \<and> rollInput (player (on_keyup ''D'' st)) = 0
   \<and> rollInput (player (run st [KeyDown ''a'', KeyDown ''d''])) = 1
   \<and> rollInput (player (run st [KeyDown ''a'', KeyDown ''d'', KeyUp ''a''])) = 0"
  by (simp add: on_keyup_def on_keydown_def run_def Let_def)

subsection \<open>C7: the throttle keys\<close>

text \<open>
  C7: from every state whose throttle is between 0 and 1, the throttle-up key adds 0.05
  to the throttle and the throttle-down key subtracts 0.05, the result clamped to stay
  between 0 and 1; every event of a session (every key press and release among them)
  leaves the throttle between 0 and 1; and from throttle 0.3, twenty presses of the
  throttle-up key in a row bring the throttle to exactly 1, so that the next update sets
  the speed to 150.
\<close>

theorem throttle_keys_clamped:
  assumes "0 \<le> throttle (player st)" "throttle (player st) \<le> 1"
  shows "throttle (player (on_keydown ''ArrowUp'' st)) = min 1 (throttle (player st) + 0.05)
       \<and> throttle (player (on_keydown ''ArrowDown'' st)) = max 0 (throttle (player st) - 0.05)
       \<and> 0 \<le> throttle (player (step st e)) \<and> throttle (player (step st e)) \<le> 1
       \<and> (throttle (player st) = 0.3 \<longrightarrow>
            throttle (player ((on_keydown ''ArrowUp'' ^^ 20) st)) = 1
            \<and> velocity (player (animate delta ((on_keydown ''ArrowUp'' ^^ 20) st))) = 150)"
proof -
  have up: "throttle (player (on_keydown ''ArrowUp'' st)) = min 1 (throttle (player st) + 0.05)"
    using assms by (simp add: throttle_keydown clamp_def)
  have down: "throttle (player (on_keydown ''ArrowDown'' st)) = max 0 (throttle (player st) - 0.05)"
    using assms by (simp add: throttle_keydown clamp_def)
  have twenty: "throttle (player ((on_keydown ''ArrowUp'' ^^ 20) st)) = 1"
    if "throttle (player st) = 0.3"
    using throttle_presses [OF assms, of 20] that by simp
  have speed: "velocity (player (animate delta ((on_keydown ''ArrowUp'' ^^ 20) st))) = 150"
    if "throttle (player st) = 0.3"
    using twenty [OF that] by (simp add: animate_def update_velocity lerp_def)
  from up down throttle_step [OF assms, of e] twenty speed show ?thesis by blast
qed

theorem throttle_keys_clamped_witness:
  "0 \<le> throttle (player init) \<and> throttle (player init) \<le> 1 \<and> throttle (player init) = 0.3
   \<and> throttle (player (on_keydown ''ArrowUp'' init)) = 0.35
   \<and> throttle (player ((on_keydown ''ArrowUp'' ^^ 20) init)) = 1
   \<and> velocity (player (animate 0.016 ((on_keydown ''ArrowUp'' ^^ 20) init))) = 150"
proof -
  have t: "throttle (player init) = 0.3"
    by (simp add: init_player Airplane_def)
  have "0 \<le> throttle (player init)" and "throttle (player init) \<le> 1"
    by (simp_all add: t)
  from throttle_keys_clamped [OF this, of "KeyDown ''w''" "0.016"] t show ?thesis by simp
qed

subsection \<open>C8: an unknown scene id\<close>

text \<open>
  C8: when the selected id is the id of no definition of the catalogue, the
  \<^verbatim>\<open>change\<close> handler returns the state it was given: the same world, the same
  airplane, no material allocated and no texture load started. The handler has no
  failing branch: \<^verbatim>\<open>find\<close> returns \<^verbatim>\<open>undefined\<close> and the \<^verbatim>\<open>if\<close> does nothing.
\<close>

theorem unknown_scene_id_is_noop:
  assumes "selectedId \<notin> set (map id' SCENES)"
  shows "on_change selectedId st = st"
proof -
  from assms have "find (\<lambda>s. id' s = selectedId) SCENES = None"
    by (auto simp: find_None_iff)
  then show ?thesis by (simp add: on_change_def)
qed

theorem unknown_scene_id_is_noop_witness:
  "''moon'' \<notin> set (map id' SCENES) \<and> on_change ''moon'' init = init"
  using unknown_scene_id_is_noop [of "''moon''" init] by (simp add: SCENES_def)

subsection \<open>C9: a texture that arrives after a scene switch\<close>

text \<open>
  C9: take any state reached from \<^verbatim>\<open>init\<close>, any texture load \<open>l\<close> in flight there
  (started by the world of that state or by an earlier one), a switch to any scene of the
  catalogue, and any events after the switch. When the callback of \<open>l\<close> runs then, the
  material it writes to is not the ground material of the current world; the world and
  its ground material are as they were before the callback, and so is every material
  other than the one at the address that the callback captured when its load started.
\<close>

theorem late_texture_misses_new_world:
  assumes "l \<in> set (loads (run init evs0))" and "d \<in> set SCENES"
  shows "snd l \<noteq> material_ref (ground (scene (run (on_change (id' d) (run init evs0)) evs)))
       \<and> scene (on_texture_load (snd l) (run (on_change (id' d) (run init evs0)) evs))
           = scene (run (on_change (id' d) (run init evs0)) evs)
       \<and> materials (on_texture_load (snd l) (run (on_change (id' d) (run init evs0)) evs))
             ! material_ref (ground (scene (run (on_change (id' d) (run init evs0)) evs)))
           = materials (run (on_change (id' d) (run init evs0)) evs)
             ! material_ref (ground (scene (run (on_change (id' d) (run init evs0)) evs)))
       \<and> (b \<noteq> snd l \<longrightarrow>
            materials (on_texture_load (snd l) (run (on_change (id' d) (run init evs0)) evs)) ! b
              = materials (run (on_change (id' d) (run init evs0)) evs) ! b)"
proof -
  let ?st = "run init evs0"
  let ?st1 = "on_change (id' d) ?st"
  let ?st2 = "run ?st1 evs"
  have ok: "store_ok ?st"
    using init_ok by (rule run_ok)
  then have ok1: "store_ok ?st1"
    using step_ok [of ?st "Change (id' d)"] by simp
  have "snd l < length (materials ?st)"
    using ok assms(1) unfolding store_ok_def by blast
  also have "length (materials ?st) = material_ref (ground (scene ?st1))"
    using find_scene [OF assms(2)] by (simp add: on_change_def buildScene_ground)
  also have "\<dots> \<le> material_ref (ground (scene ?st2))"
    using ok1 by (rule run_ground_mono)
  finally have neq: "snd l \<noteq> material_ref (ground (scene ?st2))"
    by simp
  then have "materials (on_texture_load (snd l) ?st2) ! material_ref (ground (scene ?st2))
             = materials ?st2 ! material_ref (ground (scene ?st2))"
    by (intro on_texture_load_other) simp
  with neq show ?thesis
    by (simp add: on_texture_load_scene on_texture_load_other)
qed

text \<open>The witness: the load of the first scene's texture is still in flight when the
  scene \<^verbatim>\<open>alps\<close> is selected, and arrives one frame later.\<close>

theorem late_texture_misses_new_world_witness:
  "(''assets/coast.png'', 0) \<in> set (loads (run init [])) \<and> SCENES ! 1 \<in> set SCENES
   \<and> 0 \<noteq> material_ref (ground (scene (run (on_change ''alps'' init) [Frame 1])))
   \<and> materials (on_texture_load 0 (run (on_change ''alps'' init) [Frame 1]))
         ! material_ref (ground (scene (run (on_change ''alps'' init) [Frame 1])))
       = materials (run (on_change ''alps'' init) [Frame 1])
         ! material_ref (ground (scene (run (on_change ''alps'' init) [Frame 1])))"
proof -
  have l: "(''assets/coast.png'', 0) \<in> set (loads (run init []))"
    by (simp add: run_def loads_init)
  have r: "run init [] = init"
    by (simp add: run_def)
  from late_texture_misses_new_world [OF l alps_in_SCENES, of "[Frame 1]" 1] l alps_in_SCENES
  show ?thesis
    unfolding alps_id r by simp
qed

subsection \<open>C10: the yaw is never written\<close>

text \<open>
  C10: \<^verbatim>\<open>update\<close> writes \<^verbatim>\<open>rotation.x\<close> and \<^verbatim>\<open>rotation.z\<close> only: one call, and
  any sequence of calls, leaves the yaw \<^verbatim>\<open>rotation.y\<close> of any airplane as it was. In
  every state reached from \<^verbatim>\<open>init\<close> the yaw is its initial value 0, and whenever pitch
  and roll are both 0 there, the forward direction is the world's \<open>-z\<close> axis
  \<open>(0, 0, -1)\<close>.
\<close>

theorem yaw_is_never_written:
  "ey (rotation (group (update a delta))) = ey (rotation (group a))
   \<and> ey (rotation (group (foldl update a deltas))) = ey (rotation (group a))
   \<and> ey (rotation (group (player (run init evs)))) = 0
   \<and> (ex (rotation (group (player (run init evs)))) = 0
        \<and> ez (rotation (group (player (run init evs)))) = 0
      \<longrightarrow> forward (group (player (run init evs))) = \<lparr> vx = 0, vy = 0, vz = - 1 \<rparr>)"
proof -
  have y: "ey (rotation (group (player (run init evs)))) = 0"
    by (rule yaw_run) (simp add: init_player Airplane_def)
  then show ?thesis
    by (simp add: update_yaw updates_yaw forward_no_pitch)
qed

text \<open>The witness: after one press of the throttle-up key and one frame of one second
  the airplane is level, and its forward direction is \<open>(0, 0, -1)\<close>.\<close>

theorem yaw_is_never_written_witness:
  "ex (rotation (group (player (run init [KeyDown ''ArrowUp'', Frame 1])))) = 0
   \<and> ez (rotation (group (player (run init [KeyDown ''ArrowUp'', Frame 1])))) = 0
   \<and> ey (rotation (group (player (run init [KeyDown ''ArrowUp'', Frame 1])))) = 0
   \<and> forward (group (player (run init [KeyDown ''ArrowUp'', Frame 1])))
       = \<lparr> vx = 0, vy = 0, vz = - 1 \<rparr>"
proof -
  have level: "ex (rotation (group (player (run init [KeyDown ''ArrowUp'', Frame 1])))) = 0
     \<and> ez (rotation (group (player (run init [KeyDown ''ArrowUp'', Frame 1])))) = 0"
    by (simp add: run_def on_keydown_def animate_def Let_def init_player update_pitch update_roll
        Airplane_def clamp_def degToRad_def)
  from yaw_is_never_written [of Airplane 1 "[1]" "[KeyDown ''ArrowUp'', Frame 1]"] level
  show ?thesis by simp
qed

end
